theory Spec2Isabelle
  imports Main
begin

section \<open>Values of the JavaScript program\<close>

text \<open>
  A thrown JavaScript \<open>Error\<close> is a value carrying its message. A function that may
  throw returns \<open>js_error + 'a\<close>, with \<open>Inl\<close> for the thrown error; a settled promise
  is the same sum, with \<open>Inl\<close> for the rejection.
\<close>

datatype js_error = Error (message: string)

text \<open>
  The fields of an object hold values of any runtime type. Only the two types that
  matter for the token details are modelled: numbers (of a type \<open>'n\<close> that is left
  open, since the source takes them from the provider's JSON) and strings.
\<close>

datatype 'n js_val = JNum 'n | JStr string

fun typeof :: "'n js_val \<Rightarrow> string" where
  "typeof (JNum _) = ''number''"
| "typeof (JStr _) = ''string''"

text \<open>
  The string literals of the source contain four characters outside ASCII. A \<open>string\<close>
  is a list of bytes, so each is written as its UTF-8 encoding:
  U+26A0 U+FE0F (warning sign), U+2705 (check mark), U+2753 (question mark ornament)
  and U+1F6A8 (rotating light).
\<close>

definition warning_sign :: string where
  "warning_sign = [CHR 0xE2, CHR 0x9A, CHR 0xA0, CHR 0xEF, CHR 0xB8, CHR 0x8F]"

definition check_mark :: string where
  "check_mark = [CHR 0xE2, CHR 0x9C, CHR 0x85]"

definition question_mark :: string where
  "question_mark = [CHR 0xE2, CHR 0x9D, CHR 0x93]"

definition rotating_light :: string where
  "rotating_light = [CHR 0xF0, CHR 0x9F, CHR 0x9A, CHR 0xA8]"

section \<open>Data model\<close>

text \<open>The object returned by \<open>getAccountInfo\<close>: \<open>{ owner, lamports }\<close>.\<close>

record account_info =
  owner :: string
  lamports :: nat

text \<open>An element of the array returned by \<open>getTokenTransactions\<close>: \<open>{ txId, type }\<close>.\<close>

record transaction =
  txId :: string
  type :: string

section \<open>Risk evaluation\<close>

text \<open>
  \<open>checkHoneypotLogic(accountInfo, transactions)\<close>. The parameter \<open>accountInfo\<close> is an
  object or absent (\<open>null\<close>/\<open>undefined\<close>); an object is always truthy, so
  \<open>!accountInfo\<close> holds exactly for \<open>None\<close>. \<open>Array.prototype.every\<close> is \<open>list_all\<close>,
  and \<open>incoming_only\<close> is the callback \<open>tx => tx.type === 'receive'\<close> passed to it.
\<close>

definition incoming_only :: "transaction \<Rightarrow> bool" where
  "incoming_only tx = (type tx = ''receive'')"

definition checkHoneypotLogic :: "account_info option \<Rightarrow> transaction list \<Rightarrow> bool" where
  "checkHoneypotLogic accountInfo transactions =
     (if accountInfo = None \<or> length transactions = 0 then True
      else if list_all incoming_only transactions then True
      else False)"

text \<open>\<open>checkOwnership(accountInfo)\<close>, with the template literal written as concatenation.\<close>

definition checkOwnership :: "account_info option \<Rightarrow> string" where
  "checkOwnership accountInfo =
     (case accountInfo of
        None \<Rightarrow> question_mark @ '' Unknown''
      | Some a \<Rightarrow>
          (if owner a = ''11111111111111111111111111111111''
           then rotating_light @ '' Centralized Ownership''
           else check_mark @ '' Owner: '' @ owner a))"

section \<open>Results of the fetches and of the analysis\<close>

text \<open>What \<open>getTokenInfo\<close> returns: \<open>{ name, symbol, price, marketCap }\<close>.\<close>

record 'n token_details =
  name :: string
  symbol :: string
  price :: "'n js_val"
  marketCap :: "'n js_val"

text \<open>What \<open>analyzeToken\<close> returns: \<open>{ honeypot, ownership, tokenDetails, transactions }\<close>.\<close>

record 'n report =
  honeypot :: string
  ownership :: string
  tokenDetails :: "'n token_details"
  transactions :: "transaction list"

section \<open>The chain node, the market-data provider and the runtime\<close>

text \<open>
  The account object of the chain node's client library: its owner is a public key
  (of a type \<open>'k\<close> left open), its balance a number of lamports.
\<close>

record 'k node_account =
  node_owner :: 'k
  node_lamports :: nat

text \<open>
  An element of the node's answer to \<open>getConfirmedSignaturesForAddress2\<close>. The field
  \<open>err\<close> is \<open>null\<close> or the node's description of the execution error, which is an
  object or a name and so truthy: \<open>tx.err\<close> is truthy exactly for \<open>Some\<close>.
\<close>

datatype transaction_error = TransactionError string

record signature_info =
  signature :: string
  err :: "transaction_error option"

text \<open>
  An element of the provider's answer to \<open>/coins/markets\<close>. The two numbers may be
  \<open>null\<close> in the provider's JSON (\<open>None\<close>).
\<close>

record 'n coin =
  coin_name :: string
  coin_symbol :: string
  current_price :: "'n option"
  market_cap :: "'n option"

text \<open>
  Everything the program calls and does not define is a field of the environment:
  the constructor \<open>new PublicKey(address)\<close>, which throws on a malformed address;
  \<open>toBase58\<close> of a public key; the two requests to the chain node and the HTTP GET of
  \<open>axios\<close> (URL and query parameters), each of which throws on a transport failure;
  and three built-ins of the runtime, \<open>String.prototype.toLowerCase\<close>, the conversion
  of a number to a string inside a template literal, and
  \<open>Number.prototype.toLocaleString\<close>.
\<close>

record ('k, 'n) env =
  PublicKey :: "string \<Rightarrow> js_error + 'k"
  toBase58 :: "'k \<Rightarrow> string"
  connection_getAccountInfo :: "'k \<Rightarrow> js_error + 'k node_account option"
  connection_getConfirmedSignaturesForAddress2 :: "'k \<Rightarrow> nat \<Rightarrow> js_error + signature_info list"
  axios_get :: "string \<Rightarrow> (string \<times> string) list \<Rightarrow> js_error + 'n coin list"
  toLowerCase :: "string \<Rightarrow> string"
  numberToString :: "'n \<Rightarrow> string"
  toLocaleString :: "'n \<Rightarrow> string"

definition COINGECKO_API_URL :: string where
  "COINGECKO_API_URL = ''https://api.coingecko.com/api/v3''"

section \<open>Chain data client\<close>

text \<open>
  Each of the three fetches is a \<open>try\<close> block and a \<open>catch\<close> block. The \<open>try\<close> block is
  a function of its own (suffix \<open>_try\<close>) whose \<open>Inl\<close> is the error thrown inside it. The
  fetch returns the messages it passes to \<open>logger.error\<close> together with its outcome.
\<close>

definition getAccountInfo_try :: "('k, 'n) env \<Rightarrow> string \<Rightarrow> js_error + account_info" where
  "getAccountInfo_try e address =
     (case PublicKey e address of
        Inl error \<Rightarrow> Inl error
      | Inr publicKey \<Rightarrow>
          (case connection_getAccountInfo e publicKey of
             Inl error \<Rightarrow> Inl error
           | Inr None \<Rightarrow> Inl (Error ''Account not found'')
           | Inr (Some accountInfo) \<Rightarrow>
               Inr \<lparr>owner = toBase58 e (node_owner accountInfo),
                    lamports = node_lamports accountInfo\<rparr>))"

definition getAccountInfo :: "('k, 'n) env \<Rightarrow> string \<Rightarrow> string list \<times> (js_error + account_info)" where
  "getAccountInfo e address =
     (case getAccountInfo_try e address of
        Inr accountInfo \<Rightarrow> ([], Inr accountInfo)
      | Inl error \<Rightarrow>
          ([''Error fetching account info for '' @ address @ '': '' @ message error],
           Inl (Error ''Failed to fetch account info.'')))"

definition getTokenTransactions_try :: "('k, 'n) env \<Rightarrow> string \<Rightarrow> js_error + transaction list" where
  "getTokenTransactions_try e address =
     (case PublicKey e address of
        Inl error \<Rightarrow> Inl error
      | Inr publicKey \<Rightarrow>
          (case connection_getConfirmedSignaturesForAddress2 e publicKey 10 of
             Inl error \<Rightarrow> Inl error
           | Inr txs \<Rightarrow>
               Inr (map (\<lambda>tx. \<lparr>txId = signature tx,
                                type = (if err tx \<noteq> None then ''failed'' else ''confirmed'')\<rparr>) txs)))"

definition getTokenTransactions :: "('k, 'n) env \<Rightarrow> string \<Rightarrow> string list \<times> (js_error + transaction list)" where
  "getTokenTransactions e address =
     (case getTokenTransactions_try e address of
        Inr txs \<Rightarrow> ([], Inr txs)
      | Inl error \<Rightarrow>
          ([''Error fetching transactions for '' @ address @ '': '' @ message error],
           Inl (Error ''Failed to fetch transactions.'')))"

section \<open>Market data client\<close>

text \<open>
  A template literal renders \<open>null\<close> as \<open>null\<close>; a method call on \<open>null\<close> throws a
  \<open>TypeError\<close>, whose message is the one of the V8 engine.
\<close>

definition getTokenInfo_try :: "('k, 'n) env \<Rightarrow> string \<Rightarrow> js_error + 'n token_details" where
  "getTokenInfo_try e tokenSymbol =
     (case axios_get e (COINGECKO_API_URL @ ''/coins/markets'')
             [(''vs_currency'', ''usd''), (''ids'', toLowerCase e tokenSymbol)] of
        Inl error \<Rightarrow> Inl error
      | Inr [] \<Rightarrow> Inl (Error ''Token not found.'')
      | Inr (token # _) \<Rightarrow>
          (case market_cap token of
             None \<Rightarrow> Inl (Error ''Cannot read properties of null (reading 'toLocaleString')'')
           | Some cap \<Rightarrow>
               Inr \<lparr>name = coin_name token,
                    symbol = coin_symbol token,
                    price = JStr (''$'' @ (case current_price token of
                                             None \<Rightarrow> ''null''
                                           | Some p \<Rightarrow> numberToString e p)),
                    marketCap = JStr (''$'' @ toLocaleString e cap)\<rparr>))"

definition getTokenInfo :: "('k, 'n) env \<Rightarrow> string \<Rightarrow> string list \<times> (js_error + 'n token_details)" where
  "getTokenInfo e tokenSymbol =
     (case getTokenInfo_try e tokenSymbol of
        Inr details \<Rightarrow> ([], Inr details)
      | Inl error \<Rightarrow>
          ([''Error fetching token info: '' @ message error],
           Inl (Error ''Failed to retrieve token info.'')))"

section \<open>Analysis orchestrator\<close>

text \<open>
  \<open>analyzeToken\<close> starts the three fetches and awaits \<open>Promise.all\<close> of their promises.
  \<open>Promise.all\<close> fulfils with the three values when all three promises fulfil, and
  rejects with the reason of the promise that rejects first.

  A fetch whose \<open>new PublicKey(address)\<close> throws runs its \<open>catch\<close> block before its
  first \<open>await\<close>: it logs and rejects while \<open>analyzeToken\<close> is still building the
  array, at instant \<open>0\<close>. That is so for both chain fetches or for neither, since they
  construct the key from the same address. Every other fetch settles when the node
  or the provider answers: at an instant after \<open>0\<close> given by the parameter \<open>settle\<close>
  of the model. Fetches that settle at the same instant settle in one turn of the
  event loop, in the order of the array, before \<open>analyzeToken\<close> resumes. Every
  statement below holds for all \<open>settle\<close>.
\<close>

datatype fetch = AccountFetch | TransactionsFetch | TokenFetch

definition settle_instant :: "('k, 'n) env \<Rightarrow> (fetch \<Rightarrow> nat) \<Rightarrow> string \<Rightarrow> fetch \<Rightarrow> nat" where
  "settle_instant e settle address f =
     (case f of
        AccountFetch \<Rightarrow> (if isl (PublicKey e address) then 0 else Suc (settle f))
      | TransactionsFetch \<Rightarrow> (if isl (PublicKey e address) then 0 else Suc (settle f))
      | TokenFetch \<Rightarrow> Suc (settle f))"

definition settle_order :: "(fetch \<Rightarrow> nat) \<Rightarrow> fetch list" where
  "settle_order instant = sort_key instant [AccountFetch, TransactionsFetch, TokenFetch]"

fun rejection :: "js_error + 'a \<Rightarrow> js_error option" where
  "rejection (Inl error) = Some error"
| "rejection (Inr _) = None"

text \<open>
  A settled fetch is the instant at which it settles, the lines it logged and its
  rejection if any. \<open>first_rejection\<close> finds, in a list of settled fetches in order,
  the first that rejected: its instant and its reason.
\<close>

definition settled ::
  "(fetch \<Rightarrow> nat) \<Rightarrow> string list \<times> (js_error + 'a) \<Rightarrow> string list \<times> (js_error + 'b) \<Rightarrow>
   string list \<times> (js_error + 'c) \<Rightarrow> fetch \<Rightarrow> nat \<times> string list \<times> js_error option" where
  "settled instant f1 f2 f3 f =
     (case f of
        AccountFetch \<Rightarrow> (instant f, fst f1, rejection (snd f1))
      | TransactionsFetch \<Rightarrow> (instant f, fst f2, rejection (snd f2))
      | TokenFetch \<Rightarrow> (instant f, fst f3, rejection (snd f3)))"

fun first_rejection :: "(nat \<times> string list \<times> js_error option) list \<Rightarrow> (nat \<times> js_error) option" where
  "first_rejection [] = None"
| "first_rejection ((t, ls, None) # evs) = first_rejection evs"
| "first_rejection ((t, ls, Some error) # evs) = Some (t, error)"

definition logged :: "(nat \<times> string list \<times> js_error option) list \<Rightarrow> string list" where
  "logged evs = concat (map (\<lambda>ev. fst (snd ev)) evs)"

definition all_values ::
  "js_error + 'a \<Rightarrow> js_error + 'b \<Rightarrow> js_error + 'c \<Rightarrow> js_error + ('a \<times> 'b \<times> 'c)" where
  "all_values p1 p2 p3 =
     (case p1 of
        Inl error \<Rightarrow> Inl error
      | Inr a \<Rightarrow>
          (case p2 of
             Inl error \<Rightarrow> Inl error
           | Inr b \<Rightarrow> (case p3 of Inl error \<Rightarrow> Inl error | Inr c \<Rightarrow> Inr (a, b, c))))"

text \<open>
  \<open>Promise.all\<close> of the three fetches, with the log split at the moment the awaiting
  function resumes: the lines logged before it (by the fetches that settle up to
  and at the instant of the first rejection), the outcome, and the lines that the
  fetches still in flight log afterwards.
\<close>

definition Promise_all ::
  "(fetch \<Rightarrow> nat) \<Rightarrow> string list \<times> (js_error + 'a) \<Rightarrow> string list \<times> (js_error + 'b) \<Rightarrow>
   string list \<times> (js_error + 'c) \<Rightarrow> string list \<times> (js_error + ('a \<times> 'b \<times> 'c)) \<times> string list" where
  "Promise_all instant f1 f2 f3 =
     (let evs = map (settled instant f1 f2 f3) (settle_order instant)
      in case first_rejection evs of
           None \<Rightarrow> (logged evs, all_values (snd f1) (snd f2) (snd f3), [])
         | Some (t, error) \<Rightarrow>
             (logged (filter (\<lambda>ev. fst ev \<le> t) evs), Inl error,
              logged (filter (\<lambda>ev. t < fst ev) evs)))"

text \<open>
  \<open>analyzeToken(address, tokenSymbol)\<close>. Inside \<open>analyzeToken\<close> the account object is
  present whenever \<open>Promise.all\<close> fulfils. \<open>slice(0, 5)\<close> is \<open>take 5\<close>. The \<open>catch\<close> block
  logs the message of the rejection when \<open>analyzeToken\<close> resumes.
\<close>

definition analyzeToken ::
  "('k, 'n) env \<Rightarrow> (fetch \<Rightarrow> nat) \<Rightarrow> string \<Rightarrow> string \<Rightarrow> string list \<times> (js_error + 'n report)" where
  "analyzeToken e settle address tokenSymbol =
     (case Promise_all (settle_instant e settle address) (getAccountInfo e address)
             (getTokenTransactions e address) (getTokenInfo e tokenSymbol) of
        (before, Inr (accountInfo, txs, details), after) \<Rightarrow>
          (let isHoneypot = checkHoneypotLogic (Some accountInfo) txs;
               ownership_string = checkOwnership (Some accountInfo)
           in (before @ after,
               Inr \<lparr>honeypot = (if isHoneypot then warning_sign @ '' High Risk''
                                 else check_mark @ '' No Honeypot Detected''),
                    ownership = ownership_string,
                    tokenDetails = details,
                    transactions = take 5 txs\<rparr>))
      | (before, Inl error, after) \<Rightarrow>
          (before @ [''Error analyzing token: '' @ message error] @ after,
           Inl (Error ''Analysis failed. Check the token address and symbol.'')))"

section \<open>Outbound calls and the rate limiter\<close>













section \<open>A sample environment\<close>

text \<open>
  A concrete node, provider and runtime, on which the theorems are evaluated. Public
  keys are their base-58 strings and numbers are naturals; a number is rendered in
  decimal, and with a comma between groups of three digits by \<open>toLocaleString\<close>;
  \<open>toLowerCase\<close> maps the letters \<open>A\<close> to \<open>Z\<close>.
\<close>

fun digit :: "nat \<Rightarrow> char" where
  "digit n = ''0123456789'' ! (n mod 10)"

function decimal :: "nat \<Rightarrow> string" where
  "decimal n = (if n < 10 then [digit n] else decimal (n div 10) @ [digit n])"
  by pat_completeness auto
termination
  by (relation "measure id") auto

function grouped :: "string \<Rightarrow> string" where
  "grouped ds =
     (if length ds \<le> 3 then ds
      else grouped (take (length ds - 3) ds) @ '','' @ drop (length ds - 3) ds)"
  by pat_completeness auto
termination
  by (relation "measure length") auto

declare decimal.simps [simp del] grouped.simps [simp del]

definition lower :: "char \<Rightarrow> char" where
  "lower c =
     (case map_of (zip ''ABCDEFGHIJKLMNOPQRSTUVWXYZ'' ''abcdefghijklmnopqrstuvwxyz'') c of
        Some l \<Rightarrow> l
      | None \<Rightarrow> c)"

definition sample_signatures :: "signature_info list" where
  "sample_signatures =
     [\<lparr>signature = ''s1'', err = None\<rparr>,
      \<lparr>signature = ''s2'', err = Some (TransactionError ''InstructionError'')\<rparr>,
      \<lparr>signature = ''s3'', err = None\<rparr>,
      \<lparr>signature = ''s4'', err = None\<rparr>,
      \<lparr>signature = ''s5'', err = None\<rparr>,
      \<lparr>signature = ''s6'', err = None\<rparr>,
      \<lparr>signature = ''s7'', err = Some (TransactionError ''AccountInUse'')\<rparr>,
      \<lparr>signature = ''s8'', err = None\<rparr>,
      \<lparr>signature = ''s9'', err = None\<rparr>,
      \<lparr>signature = ''s10'', err = None\<rparr>]"

text \<open>
  The node knows three addresses: \<open>Busy\<close> has an owner and ten transactions, \<open>Idle\<close> has
  an owner and no history, \<open>Gone\<close> is well formed and has no account. The empty address
  is malformed, and the node is unreachable for \<open>Down\<close>. The provider lists \<open>solana\<close>
  and, with no market capitalisation, \<open>newcoin\<close>; it is unreachable for \<open>offline\<close>.
\<close>

definition sample_env :: "(string, nat) env" where
  "sample_env =
     \<lparr>PublicKey = (\<lambda>address. if address = [] then Inl (Error ''Invalid public key input'')
                               else Inr address),
      toBase58 = (\<lambda>k. k),
      connection_getAccountInfo =
        (\<lambda>k. if k = ''Down'' then Inl (Error ''fetch failed'')
              else if k = ''Busy'' \<or> k = ''Idle''
              then Inr (Some \<lparr>node_owner = ''TokenkegQfeZyiNwAJbNbGKPFXCWuBvf9Ss623VQ5DA'',
                               node_lamports = 2039280\<rparr>)
              else if k = ''System''
              then Inr (Some \<lparr>node_owner = ''11111111111111111111111111111111'',
                               node_lamports = 1\<rparr>)
              else Inr None),
      connection_getConfirmedSignaturesForAddress2 =
        (\<lambda>k limit. if k = ''Down'' then Inl (Error ''fetch failed'')
                    else if k = ''Busy'' then Inr (take limit sample_signatures)
                    else Inr []),
      axios_get =
        (\<lambda>url params.
           if map_of params ''ids'' = Some ''offline'' then Inl (Error ''Network Error'')
           else if map_of params ''ids'' = Some ''solana''
           then Inr [\<lparr>coin_name = ''Solana'', coin_symbol = ''sol'',
                       current_price = Some 150, market_cap = Some 70123456789\<rparr>]
           else if map_of params ''ids'' = Some ''newcoin''
           then Inr [\<lparr>coin_name = ''New Coin'', coin_symbol = ''new'',
                       current_price = Some 2, market_cap = None\<rparr>]
           else Inr []),
      toLowerCase = map lower,
      numberToString = decimal,
      toLocaleString = (\<lambda>n. grouped (decimal n))\<rparr>"

text \<open>
  The fetches settle in the order token, account, transactions in the sample runs.
\<close>

definition sample_settle :: "fetch \<Rightarrow> nat" where
  "sample_settle f = (case f of AccountFetch \<Rightarrow> 2 | TransactionsFetch \<Rightarrow> 3 | TokenFetch \<Rightarrow> 1)"

definition sample_account :: account_info where
  "sample_account =
     \<lparr>owner = ''TokenkegQfeZyiNwAJbNbGKPFXCWuBvf9Ss623VQ5DA'', lamports = 2039280\<rparr>"

definition system_account :: account_info where
  "system_account = \<lparr>owner = ''11111111111111111111111111111111'', lamports = 1\<rparr>"

definition received :: transaction where
  "received = \<lparr>txId = ''s1'', type = ''receive''\<rparr>"

definition confirmed :: transaction where
  "confirmed = \<lparr>txId = ''s2'', type = ''confirmed''\<rparr>"

definition sample_transactions :: "transaction list" where
  "sample_transactions =
     [\<lparr>txId = ''s1'', type = ''confirmed''\<rparr>, \<lparr>txId = ''s2'', type = ''failed''\<rparr>,
      \<lparr>txId = ''s3'', type = ''confirmed''\<rparr>, \<lparr>txId = ''s4'', type = ''confirmed''\<rparr>,
      \<lparr>txId = ''s5'', type = ''confirmed''\<rparr>, \<lparr>txId = ''s6'', type = ''confirmed''\<rparr>,
      \<lparr>txId = ''s7'', type = ''failed''\<rparr>, \<lparr>txId = ''s8'', type = ''confirmed''\<rparr>,
      \<lparr>txId = ''s9'', type = ''confirmed''\<rparr>, \<lparr>txId = ''s10'', type = ''confirmed''\<rparr>]"

definition sample_details :: "nat token_details" where
  "sample_details =
     \<lparr>name = ''Solana'', symbol = ''sol'', price = JStr ''$150'',
      marketCap = JStr ''$70,123,456,789''\<rparr>"

definition busy_report :: "nat report" where
  "busy_report =
     \<lparr>honeypot = check_mark @ '' No Honeypot Detected'',
      ownership = check_mark @ '' Owner: TokenkegQfeZyiNwAJbNbGKPFXCWuBvf9Ss623VQ5DA'',
      tokenDetails = sample_details,
      transactions = take 5 sample_transactions\<rparr>"

definition idle_report :: "nat report" where
  "idle_report =
     \<lparr>honeypot = warning_sign @ '' High Risk'',
      ownership = check_mark @ '' Owner: TokenkegQfeZyiNwAJbNbGKPFXCWuBvf9Ss623VQ5DA'',
      tokenDetails = sample_details,
      transactions = []\<rparr>"

section \<open>Properties of the orchestrator\<close>

lemma set_settle_order: "set (settle_order instant) = {AccountFetch, TransactionsFetch, TokenFetch}"
  unfolding settle_order_def by (simp only: set_sort) simp

lemma first_rejection_None:
  "first_rejection evs = None \<longleftrightarrow> (\<forall>ev \<in> set evs. snd (snd ev) = None)"
  by (induction evs rule: first_rejection.induct) auto

lemma Promise_all_fulfilled:
  assumes "snd f1 = Inr a" "snd f2 = Inr b" "snd f3 = Inr c"
  shows "fst (snd (Promise_all instant f1 f2 f3)) = Inr (a, b, c)"
proof -
  let ?evs = "map (settled instant f1 f2 f3) (settle_order instant)"
  have "\<forall>ev \<in> set ?evs. snd (snd ev) = None"
    using assms by (auto simp: settled_def split: fetch.splits)
  then have "first_rejection ?evs = None"
    using first_rejection_None [of ?evs] by blast
  with assms show ?thesis
    by (simp add: Promise_all_def all_values_def Let_def)
qed

lemma Promise_all_rejected:
  assumes "isl (snd f1) \<or> isl (snd f2) \<or> isl (snd f3)"
  shows "isl (fst (snd (Promise_all instant f1 f2 f3)))"
proof -
  let ?evs = "map (settled instant f1 f2 f3) (settle_order instant)"
  from assms have "\<exists>f. snd (snd (settled instant f1 f2 f3 f)) \<noteq> None"
  proof (elim disjE)
    assume "isl (snd f1)"
    then have "snd (snd (settled instant f1 f2 f3 AccountFetch)) \<noteq> None"
      by (cases "snd f1") (simp_all add: settled_def)
    then show ?thesis ..
  next
    assume "isl (snd f2)"
    then have "snd (snd (settled instant f1 f2 f3 TransactionsFetch)) \<noteq> None"
      by (cases "snd f2") (simp_all add: settled_def)
    then show ?thesis ..
  next
    assume "isl (snd f3)"
    then have "snd (snd (settled instant f1 f2 f3 TokenFetch)) \<noteq> None"
      by (cases "snd f3") (simp_all add: settled_def)
    then show ?thesis ..
  qed
  then obtain f where f: "snd (snd (settled instant f1 f2 f3 f)) \<noteq> None" ..
  have "f \<in> set (settle_order instant)"
    by (cases f) (simp_all add: set_settle_order)
  with f have "\<not> (\<forall>ev \<in> set ?evs. snd (snd ev) = None)"
    by force
  then have "first_rejection ?evs \<noteq> None"
    using first_rejection_None [of ?evs] by blast
  then obtain t error where "first_rejection ?evs = Some (t, error)"
    by (cases "first_rejection ?evs") auto
  then show ?thesis
    by (simp add: Promise_all_def Let_def)
qed

lemma analyzeToken_rejected:
  assumes "isl (snd (getAccountInfo e address)) \<or> isl (snd (getTokenTransactions e address))
           \<or> isl (snd (getTokenInfo e tokenSymbol))"
  shows "snd (analyzeToken e settle address tokenSymbol) =
         Inl (Error ''Analysis failed. Check the token address and symbol.'')"
proof -
  let ?p = "Promise_all (settle_instant e settle address) (getAccountInfo e address)
             (getTokenTransactions e address) (getTokenInfo e tokenSymbol)"
  obtain before outcome after where p: "?p = (before, outcome, after)"
    by (cases ?p) auto
  from assms have "isl (fst (snd ?p))" by (rule Promise_all_rejected)
  with p obtain error where "outcome = Inl error" by (cases outcome) auto
  with p show ?thesis by (simp add: analyzeToken_def)
qed

lemma analyzeToken_fulfilled:
  assumes "snd (getAccountInfo e address) = Inr accountInfo"
    and "snd (getTokenTransactions e address) = Inr txs"
    and "snd (getTokenInfo e tokenSymbol) = Inr details"
  shows "snd (analyzeToken e settle address tokenSymbol) =
         Inr \<lparr>honeypot = (if checkHoneypotLogic (Some accountInfo) txs
                           then warning_sign @ '' High Risk''
                           else check_mark @ '' No Honeypot Detected''),
              ownership = checkOwnership (Some accountInfo),
              tokenDetails = details,
              transactions = take 5 txs\<rparr>"
proof -
  let ?p = "Promise_all (settle_instant e settle address) (getAccountInfo e address)
             (getTokenTransactions e address) (getTokenInfo e tokenSymbol)"
  obtain before outcome after where p: "?p = (before, outcome, after)"
    by (cases ?p) auto
  from assms have "fst (snd ?p) = Inr (accountInfo, txs, details)"
    by (rule Promise_all_fulfilled)
  with p have "outcome = Inr (accountInfo, txs, details)" by simp
  with p show ?thesis by (simp add: analyzeToken_def Let_def)
qed

text \<open>
  The log of a run with a malformed address, for every \<open>settle\<close>: the account fetch
  and the transactions fetch log first, then \<open>analyzeToken\<close> logs the failure of the
  account fetch, and the token fetch logs last, if it fails.
\<close>

lemma analyzeToken_log_malformed:
  assumes "PublicKey e address = Inl error"
  shows "fst (analyzeToken e settle address tokenSymbol) =
           [''Error fetching account info for '' @ address @ '': '' @ message error,
            ''Error fetching transactions for '' @ address @ '': '' @ message error,
            ''Error analyzing token: Failed to fetch account info.''] @
           fst (getTokenInfo e tokenSymbol)"
proof -
  have "settle_order (settle_instant e settle address) =
          [AccountFetch, TransactionsFetch, TokenFetch]"
    using assms by (simp add: settle_order_def settle_instant_def)
  moreover have "getAccountInfo e address =
      ([''Error fetching account info for '' @ address @ '': '' @ message error],
       Inl (Error ''Failed to fetch account info.''))"
    using assms by (simp add: getAccountInfo_def getAccountInfo_try_def)
  moreover have "getTokenTransactions e address =
      ([''Error fetching transactions for '' @ address @ '': '' @ message error],
       Inl (Error ''Failed to fetch transactions.''))"
    using assms by (simp add: getTokenTransactions_def getTokenTransactions_try_def)
  moreover have "settle_instant e settle address AccountFetch = 0"
    "settle_instant e settle address TransactionsFetch = 0"
    "settle_instant e settle address TokenFetch = Suc (settle TokenFetch)"
    using assms by (simp_all add: settle_instant_def)
  ultimately show ?thesis
    by (simp add: analyzeToken_def Promise_all_def settled_def logged_def)
qed

lemma fetch_log_fulfilled:
  "snd (getAccountInfo e address) = Inr a \<Longrightarrow> fst (getAccountInfo e address) = []"
  "snd (getTokenTransactions e address) = Inr t \<Longrightarrow> fst (getTokenTransactions e address) = []"
  "snd (getTokenInfo e tokenSymbol) = Inr d \<Longrightarrow> fst (getTokenInfo e tokenSymbol) = []"
  by (auto simp: getAccountInfo_def getTokenTransactions_def getTokenInfo_def split: sum.splits)

lemma analyzeToken_Inr:
  assumes "snd (analyzeToken e settle address tokenSymbol) = Inr r"
  obtains accountInfo txs details where
    "snd (getAccountInfo e address) = Inr accountInfo"
    "snd (getTokenTransactions e address) = Inr txs"
    "snd (getTokenInfo e tokenSymbol) = Inr details"
    "r = \<lparr>honeypot = (if checkHoneypotLogic (Some accountInfo) txs
                       then warning_sign @ '' High Risk''
                       else check_mark @ '' No Honeypot Detected''),
          ownership = checkOwnership (Some accountInfo),
          tokenDetails = details,
          transactions = take 5 txs\<rparr>"
proof -
  have "\<not> (isl (snd (getAccountInfo e address)) \<or> isl (snd (getTokenTransactions e address))
           \<or> isl (snd (getTokenInfo e tokenSymbol)))"
    using analyzeToken_rejected [of e address tokenSymbol settle] assms by auto
  then obtain accountInfo txs details where f:
    "snd (getAccountInfo e address) = Inr accountInfo"
    "snd (getTokenTransactions e address) = Inr txs"
    "snd (getTokenInfo e tokenSymbol) = Inr details"
    by (cases "snd (getAccountInfo e address)"; cases "snd (getTokenTransactions e address)";
        cases "snd (getTokenInfo e tokenSymbol)") auto
  from analyzeToken_fulfilled [OF f, of settle] assms that [OF f] show thesis
    by simp
qed

section \<open>Properties of the fetched transactions\<close>

lemma getTokenTransactions_types:
  assumes "snd (getTokenTransactions e address) = Inr txs"
  shows "\<forall>tx \<in> set txs. (type tx = ''confirmed'' \<or> type tx = ''failed'') \<and> \<not> incoming_only tx"
  using assms
  by (auto simp: getTokenTransactions_def getTokenTransactions_try_def incoming_only_def
      split: sum.splits if_splits)

lemma checkHoneypotLogic_fetched:
  assumes "snd (getTokenTransactions e address) = Inr txs"
  shows "checkHoneypotLogic (Some accountInfo) txs = (txs = [])"
proof (cases txs)
  case Nil
  then show ?thesis by (simp add: checkHoneypotLogic_def)
next
  case (Cons tx rest)
  with getTokenTransactions_types [OF assms] have "\<not> incoming_only tx" by simp
  with Cons show ?thesis by (simp add: checkHoneypotLogic_def)
qed

lemma labels_differ: "warning_sign @ '' High Risk'' \<noteq> check_mark @ '' No Honeypot Detected''"
  by (simp add: warning_sign_def check_mark_def)

section \<open>The sample environment, evaluated\<close>

lemma sample_node:
  "PublicKey sample_env ''Busy'' = Inr ''Busy''"
  "PublicKey sample_env ''Idle'' = Inr ''Idle''"
  "PublicKey sample_env ''Gone'' = Inr ''Gone''"
  "PublicKey sample_env ''Down'' = Inr ''Down''"
  "connection_getAccountInfo sample_env ''Gone'' = Inr None"
  "connection_getAccountInfo sample_env ''Down'' = Inl (Error ''fetch failed'')"
  "connection_getConfirmedSignaturesForAddress2 sample_env ''Busy'' 10 = Inr sample_signatures"
  "connection_getConfirmedSignaturesForAddress2 sample_env ''Idle'' 10 = Inr []"
  by (simp_all add: sample_env_def sample_signatures_def)

lemma sample_provider:
  "axios_get sample_env (COINGECKO_API_URL @ ''/coins/markets'')
     [(''vs_currency'', ''usd''), (''ids'', toLowerCase sample_env ''doesnotexist'')] = Inr []"
  "axios_get sample_env (COINGECKO_API_URL @ ''/coins/markets'')
     [(''vs_currency'', ''usd''), (''ids'', toLowerCase sample_env ''offline'')] =
     Inl (Error ''Network Error'')"
  by (simp_all add: sample_env_def lower_def)

lemma sample_getAccountInfo:
  "getAccountInfo sample_env ''Busy'' = ([], Inr sample_account)"
  "getAccountInfo sample_env ''Idle'' = ([], Inr sample_account)"
  "getAccountInfo sample_env ''Gone'' =
     ([''Error fetching account info for Gone: Account not found''],
      Inl (Error ''Failed to fetch account info.''))"
  "getAccountInfo sample_env ''Down'' =
     ([''Error fetching account info for Down: fetch failed''],
      Inl (Error ''Failed to fetch account info.''))"
  by (simp_all add: getAccountInfo_def getAccountInfo_try_def sample_env_def sample_account_def)

lemma sample_getTokenTransactions:
  "getTokenTransactions sample_env ''Busy'' = ([], Inr sample_transactions)"
  "getTokenTransactions sample_env ''Idle'' = ([], Inr [])"
  "getTokenTransactions sample_env ''Gone'' = ([], Inr [])"
  "getTokenTransactions sample_env ''Down'' =
     ([''Error fetching transactions for Down: fetch failed''],
      Inl (Error ''Failed to fetch transactions.''))"
  by (simp_all add: getTokenTransactions_def getTokenTransactions_try_def sample_env_def
      sample_signatures_def sample_transactions_def)

lemma sample_getTokenInfo:
  "getTokenInfo sample_env ''Solana'' = ([], Inr sample_details)"
  "getTokenInfo sample_env ''doesnotexist'' =
     ([''Error fetching token info: Token not found.''],
      Inl (Error ''Failed to retrieve token info.''))"
  "getTokenInfo sample_env ''offline'' =
     ([''Error fetching token info: Network Error''],
      Inl (Error ''Failed to retrieve token info.''))"
  by (simp_all add: getTokenInfo_def getTokenInfo_try_def sample_env_def lower_def
      decimal.simps grouped.simps sample_details_def)

lemma sample_analyzeToken:
  "snd (analyzeToken sample_env sample_settle ''Busy'' ''Solana'') = Inr busy_report"
  "snd (analyzeToken sample_env sample_settle ''Idle'' ''Solana'') = Inr idle_report"
proof -
  have "checkHoneypotLogic (Some sample_account) sample_transactions = False"
    by (simp add: checkHoneypotLogic_def incoming_only_def sample_transactions_def)
  moreover have "checkOwnership (Some sample_account) =
      check_mark @ '' Owner: TokenkegQfeZyiNwAJbNbGKPFXCWuBvf9Ss623VQ5DA''"
    by (simp add: checkOwnership_def sample_account_def)
  ultimately show "snd (analyzeToken sample_env sample_settle ''Busy'' ''Solana'') = Inr busy_report"
    using analyzeToken_fulfilled [of sample_env "''Busy''" sample_account sample_transactions
        "''Solana''" sample_details sample_settle]
    by (simp add: sample_getAccountInfo sample_getTokenTransactions sample_getTokenInfo
        busy_report_def)
  have "checkHoneypotLogic (Some sample_account) [] = True"
    by (simp add: checkHoneypotLogic_def)
  moreover have "checkOwnership (Some sample_account) =
      check_mark @ '' Owner: TokenkegQfeZyiNwAJbNbGKPFXCWuBvf9Ss623VQ5DA''"
    by (simp add: checkOwnership_def sample_account_def)
  ultimately show "snd (analyzeToken sample_env sample_settle ''Idle'' ''Solana'') = Inr idle_report"
    using analyzeToken_fulfilled [of sample_env "''Idle''" sample_account "[]"
        "''Solana''" sample_details sample_settle]
    by (simp add: sample_getAccountInfo sample_getTokenTransactions sample_getTokenInfo
        idle_report_def)
qed

lemma sample_instants:
  "settle_instant sample_env sample_settle ''Gone'' = (\<lambda>f. Suc (sample_settle f))"
  "settle_instant sample_env sample_settle [] =
     (\<lambda>f. case f of TokenFetch \<Rightarrow> Suc (sample_settle f) | _ \<Rightarrow> 0)"
  by (auto simp: settle_instant_def sample_env_def fun_eq_iff split: fetch.splits)

text \<open>
  Two failing runs with their logs. For the well-formed address \<open>Gone\<close> the token
  fetch rejects first and the account fetch logs after \<open>analyzeToken\<close>. For the
  malformed empty address both chain fetches log before \<open>analyzeToken\<close> does,
  although the sample token fetch is the fastest to settle.
\<close>

lemma sample_log:
  "fst (analyzeToken sample_env sample_settle ''Gone'' ''doesnotexist'') =
     [''Error fetching token info: Token not found.'',
      ''Error analyzing token: Failed to retrieve token info.'',
      ''Error fetching account info for Gone: Account not found'']"
  by (simp add: analyzeToken_def Promise_all_def settled_def logged_def sample_getTokenInfo
      sample_getAccountInfo sample_getTokenTransactions settle_order_def sample_instants
      sample_settle_def)

lemma sample_log_malformed:
  "fst (analyzeToken sample_env sample_settle [] ''doesnotexist'') =
     [''Error fetching account info for : Invalid public key input'',
      ''Error fetching transactions for : Invalid public key input'',
      ''Error analyzing token: Failed to fetch account info.'',
      ''Error fetching token info: Token not found.'']"
proof -
  have "getAccountInfo sample_env [] =
      ([''Error fetching account info for : Invalid public key input''],
       Inl (Error ''Failed to fetch account info.''))"
    by (simp add: getAccountInfo_def getAccountInfo_try_def sample_env_def)
  moreover have "getTokenTransactions sample_env [] =
      ([''Error fetching transactions for : Invalid public key input''],
       Inl (Error ''Failed to fetch transactions.''))"
    by (simp add: getTokenTransactions_def getTokenTransactions_try_def sample_env_def)
  ultimately show ?thesis
    by (simp add: analyzeToken_def Promise_all_def settled_def logged_def sample_getTokenInfo
        settle_order_def sample_instants sample_settle_def)
qed

section \<open>The risk evaluator\<close>

text \<open>
  C1, as the code has it. For a non-empty transaction sequence, \<open>checkHoneypotLogic\<close>
  returns \<open>true\<close> (high risk) when every element is incoming-only, whatever the
  account object, and returns \<open>false\<close> (none detected) when some element is not
  incoming-only and the account object is present.
\<close>

theorem checkHoneypotLogic_incoming_only:
  assumes "txs \<noteq> []"
  shows "(list_all incoming_only txs \<longrightarrow> checkHoneypotLogic accountInfo txs = True) \<and>
         (\<not> list_all incoming_only txs \<longrightarrow> checkHoneypotLogic (Some a) txs = False)"
  using assms by (simp add: checkHoneypotLogic_def)

theorem checkHoneypotLogic_incoming_only_witness:
  "checkHoneypotLogic None [received, received] = True \<and>
   checkHoneypotLogic (Some sample_account) [received, received] = True \<and>
   checkHoneypotLogic (Some sample_account) [received, confirmed] = False"
  using checkHoneypotLogic_incoming_only [of "[received, received]" None sample_account]
    checkHoneypotLogic_incoming_only [of "[received, received]" "Some sample_account" sample_account]
    checkHoneypotLogic_incoming_only [of "[received, confirmed]" None sample_account]
  by (simp add: incoming_only_def received_def confirmed_def)

text \<open>
  C1 as stated, for every account object, fails when the account object is absent:
  the sequence is not empty and its only element is not incoming-only, and the
  result is \<open>true\<close> (high risk).
\<close>

theorem checkHoneypotLogic_absent_account_counterexample:
  "[confirmed] \<noteq> [] \<and> \<not> incoming_only confirmed \<and> checkHoneypotLogic None [confirmed] = True"
  by (simp add: checkHoneypotLogic_def incoming_only_def confirmed_def)

text \<open>
  C8. \<open>checkHoneypotLogic\<close> returns \<open>true\<close> (high risk) for every pair whose
  transaction sequence is empty, and for every pair whose account object is absent.
\<close>

theorem checkHoneypotLogic_empty_or_absent:
  "checkHoneypotLogic accountInfo [] = True \<and> checkHoneypotLogic None txs = True"
  by (simp add: checkHoneypotLogic_def)

text \<open>
  C3. \<open>checkOwnership\<close> is total with three outcomes: an absent account object gives
  the label \<open>Unknown\<close>, an owner equal to the system identity (thirty-two times the
  digit 1) gives the label \<open>Centralized Ownership\<close>, and every other owner gives the
  label \<open>Owner:\<close> followed by that owner. The three labels differ from each other,
  whatever the owner, so every input has exactly one of the outcomes.
\<close>

theorem checkOwnership_total:
  "checkOwnership None = question_mark @ '' Unknown'' \<and>
   (owner a = ''11111111111111111111111111111111'' \<longrightarrow>
      checkOwnership (Some a) = rotating_light @ '' Centralized Ownership'') \<and>
   (owner a \<noteq> ''11111111111111111111111111111111'' \<longrightarrow>
      checkOwnership (Some a) = check_mark @ '' Owner: '' @ owner a) \<and>
   question_mark @ '' Unknown'' \<noteq> rotating_light @ '' Centralized Ownership'' \<and>
   question_mark @ '' Unknown'' \<noteq> check_mark @ '' Owner: '' @ ownerId \<and>
   rotating_light @ '' Centralized Ownership'' \<noteq> check_mark @ '' Owner: '' @ ownerId"
  by (simp add: checkOwnership_def question_mark_def rotating_light_def check_mark_def)

theorem checkOwnership_total_witness:
  "checkOwnership (Some system_account) = rotating_light @ '' Centralized Ownership'' \<and>
   checkOwnership (Some sample_account) =
     check_mark @ '' Owner: TokenkegQfeZyiNwAJbNbGKPFXCWuBvf9Ss623VQ5DA''"
  using checkOwnership_total [of system_account] checkOwnership_total [of sample_account]
  by (simp add: system_account_def sample_account_def)

section \<open>The fetches\<close>

text \<open>
  C9. For a well-formed address, \<open>getTokenTransactions\<close> succeeds with one record for
  each signature the node returns, in the node's order, and logs nothing; for an
  address without history that is the empty sequence, not an error. The type of a
  record is \<open>failed\<close> exactly when the node recorded an execution error for the
  transaction and \<open>confirmed\<close> exactly when it recorded none.
\<close>

theorem getTokenTransactions_status:
  assumes "PublicKey e address = Inr publicKey"
    and "connection_getConfirmedSignaturesForAddress2 e publicKey 10 = Inr sigs"
  shows "\<exists>txs. getTokenTransactions e address = ([], Inr txs) \<and>
           length txs = length sigs \<and>
           (sigs = [] \<longrightarrow> txs = []) \<and>
           (\<forall>i < length sigs.
              txId (txs ! i) = signature (sigs ! i) \<and>
              (type (txs ! i) = ''failed'' \<longleftrightarrow> err (sigs ! i) \<noteq> None) \<and>
              (type (txs ! i) = ''confirmed'' \<longleftrightarrow> err (sigs ! i) = None))"
  using assms by (simp add: getTokenTransactions_def getTokenTransactions_try_def)

theorem getTokenTransactions_status_witness:
  "getTokenTransactions sample_env ''Idle'' = ([], Inr []) \<and>
   getTokenTransactions sample_env ''Busy'' = ([], Inr sample_transactions) \<and>
   err (sample_signatures ! 0) = None \<and> type (sample_transactions ! 0) = ''confirmed'' \<and>
   err (sample_signatures ! 1) \<noteq> None \<and> type (sample_transactions ! 1) = ''failed''"
  using getTokenTransactions_status [OF sample_node(2) sample_node(8)]
    getTokenTransactions_status [OF sample_node(1) sample_node(7)]
  by (simp add: sample_getTokenTransactions sample_signatures_def sample_transactions_def)

text \<open>
  C6, as the code has it. Each fetch has one error of its own, whatever the cause:
  \<open>getAccountInfo\<close> fails with \<open>Failed to fetch account info.\<close> and \<open>getTokenInfo\<close> with
  \<open>Failed to retrieve token info.\<close>. The cause is in the line the fetch logs, and
  nowhere in its outcome: \<open>Account not found\<close> when the node reports no account,
  \<open>Token not found.\<close> when the provider returns no entry, and the message of the
  transport error when the node or the provider cannot be reached.
\<close>

theorem fetch_errors_generic:
  "(isl (snd (getAccountInfo e address)) \<longrightarrow>
      snd (getAccountInfo e address) = Inl (Error ''Failed to fetch account info.'')) \<and>
   (isl (snd (getTokenInfo e tokenSymbol)) \<longrightarrow>
      snd (getTokenInfo e tokenSymbol) = Inl (Error ''Failed to retrieve token info.'')) \<and>
   (PublicKey e address = Inr publicKey \<and> connection_getAccountInfo e publicKey = Inr None \<longrightarrow>
      getAccountInfo e address =
        ([''Error fetching account info for '' @ address @ '': Account not found''],
         Inl (Error ''Failed to fetch account info.''))) \<and>
   (PublicKey e address = Inr publicKey \<and> connection_getAccountInfo e publicKey = Inl error \<longrightarrow>
      getAccountInfo e address =
        ([''Error fetching account info for '' @ address @ '': '' @ message error],
         Inl (Error ''Failed to fetch account info.''))) \<and>
   (axios_get e (COINGECKO_API_URL @ ''/coins/markets'')
        [(''vs_currency'', ''usd''), (''ids'', toLowerCase e tokenSymbol)] = Inr [] \<longrightarrow>
      getTokenInfo e tokenSymbol =
        ([''Error fetching token info: Token not found.''],
         Inl (Error ''Failed to retrieve token info.''))) \<and>
   (axios_get e (COINGECKO_API_URL @ ''/coins/markets'')
        [(''vs_currency'', ''usd''), (''ids'', toLowerCase e tokenSymbol)] = Inl error' \<longrightarrow>
      getTokenInfo e tokenSymbol =
        ([''Error fetching token info: '' @ message error'],
         Inl (Error ''Failed to retrieve token info.'')))"
proof (intro conjI impI)
  show "snd (getAccountInfo e address) = Inl (Error ''Failed to fetch account info.'')"
    if "isl (snd (getAccountInfo e address))"
    using that by (simp add: getAccountInfo_def split: sum.splits)
  show "snd (getTokenInfo e tokenSymbol) = Inl (Error ''Failed to retrieve token info.'')"
    if "isl (snd (getTokenInfo e tokenSymbol))"
    using that by (simp add: getTokenInfo_def split: sum.splits)
  show "getAccountInfo e address =
        ([''Error fetching account info for '' @ address @ '': Account not found''],
         Inl (Error ''Failed to fetch account info.''))"
    if "PublicKey e address = Inr publicKey \<and> connection_getAccountInfo e publicKey = Inr None"
    using that by (simp add: getAccountInfo_def getAccountInfo_try_def)
  show "getAccountInfo e address =
        ([''Error fetching account info for '' @ address @ '': '' @ message error],
         Inl (Error ''Failed to fetch account info.''))"
    if "PublicKey e address = Inr publicKey \<and> connection_getAccountInfo e publicKey = Inl error"
    using that by (simp add: getAccountInfo_def getAccountInfo_try_def)
  show "getTokenInfo e tokenSymbol =
        ([''Error fetching token info: Token not found.''],
         Inl (Error ''Failed to retrieve token info.''))"
    if "axios_get e (COINGECKO_API_URL @ ''/coins/markets'')
        [(''vs_currency'', ''usd''), (''ids'', toLowerCase e tokenSymbol)] = Inr []"
    using that by (simp add: getTokenInfo_def getTokenInfo_try_def)
  show "getTokenInfo e tokenSymbol =
        ([''Error fetching token info: '' @ message error'],
         Inl (Error ''Failed to retrieve token info.''))"
    if "axios_get e (COINGECKO_API_URL @ ''/coins/markets'')
        [(''vs_currency'', ''usd''), (''ids'', toLowerCase e tokenSymbol)] = Inl error'"
    using that by (simp add: getTokenInfo_def getTokenInfo_try_def)
qed

theorem fetch_errors_generic_witness:
  "getAccountInfo sample_env ''Gone'' =
     ([''Error fetching account info for Gone: Account not found''],
      Inl (Error ''Failed to fetch account info.'')) \<and>
   getAccountInfo sample_env ''Down'' =
     ([''Error fetching account info for Down: fetch failed''],
      Inl (Error ''Failed to fetch account info.'')) \<and>
   getTokenInfo sample_env ''doesnotexist'' =
     ([''Error fetching token info: Token not found.''],
      Inl (Error ''Failed to retrieve token info.'')) \<and>
   getTokenInfo sample_env ''offline'' =
     ([''Error fetching token info: Network Error''],
      Inl (Error ''Failed to retrieve token info.''))"
proof -
  note gone = fetch_errors_generic [of sample_env "''Gone''" "''doesnotexist''" "''Gone''"
      "Error ''fetch failed''" "Error ''Network Error''"]
  note down = fetch_errors_generic [of sample_env "''Down''" "''offline''" "''Down''"
      "Error ''fetch failed''" "Error ''Network Error''"]
  have "getAccountInfo sample_env ''Gone'' =
     ([''Error fetching account info for Gone: Account not found''],
      Inl (Error ''Failed to fetch account info.''))"
    using gone [THEN conjunct2, THEN conjunct2, THEN conjunct1]
    by (simp add: sample_node)
  moreover have "getAccountInfo sample_env ''Down'' =
     ([''Error fetching account info for Down: fetch failed''],
      Inl (Error ''Failed to fetch account info.''))"
    using down [THEN conjunct2, THEN conjunct2, THEN conjunct2, THEN conjunct1]
    by (simp add: sample_node)
  moreover have "getTokenInfo sample_env ''doesnotexist'' =
     ([''Error fetching token info: Token not found.''],
      Inl (Error ''Failed to retrieve token info.''))"
    using gone [THEN conjunct2, THEN conjunct2, THEN conjunct2, THEN conjunct2, THEN conjunct1]
    by (simp add: sample_provider)
  moreover have "getTokenInfo sample_env ''offline'' =
     ([''Error fetching token info: Network Error''],
      Inl (Error ''Failed to retrieve token info.''))"
    using down [THEN conjunct2, THEN conjunct2, THEN conjunct2, THEN conjunct2, THEN conjunct2]
    by (simp add: sample_provider)
  ultimately show ?thesis by (intro conjI)
qed

text \<open>
  C6 as stated fails: the node reports no account for \<open>Gone\<close> and is unreachable for
  \<open>Down\<close>, and \<open>getAccountInfo\<close> fails with the same error for both; the provider
  returns no entry for \<open>doesnotexist\<close> and is unreachable for \<open>offline\<close>, and
  \<open>getTokenInfo\<close> fails with the same error for both.
\<close>

theorem fetch_errors_not_specific_counterexample:
  "connection_getAccountInfo sample_env ''Gone'' = Inr None \<and>
   connection_getAccountInfo sample_env ''Down'' = Inl (Error ''fetch failed'') \<and>
   snd (getAccountInfo sample_env ''Gone'') = Inl (Error ''Failed to fetch account info.'') \<and>
   snd (getAccountInfo sample_env ''Down'') = Inl (Error ''Failed to fetch account info.'') \<and>
   snd (getTokenInfo sample_env ''doesnotexist'') = Inl (Error ''Failed to retrieve token info.'') \<and>
   snd (getTokenInfo sample_env ''offline'') = Inl (Error ''Failed to retrieve token info.'')"
  by (simp add: sample_getAccountInfo sample_getTokenInfo sample_node)

text \<open>
  C7, as the code has it. On success the fields \<open>price\<close> and \<open>marketCap\<close> of what
  \<open>getTokenInfo\<close> returns are strings: a dollar sign followed by the rendering of
  the first entry's \<open>current_price\<close>, and a dollar sign followed by the
  \<open>toLocaleString\<close> rendering of its \<open>market_cap\<close>.
\<close>

theorem getTokenInfo_formats_strings:
  assumes "snd (getTokenInfo e tokenSymbol) = Inr details"
  shows "typeof (price details) = ''string'' \<and> typeof (marketCap details) = ''string'' \<and>
         (\<exists>token rest cap.
            axios_get e (COINGECKO_API_URL @ ''/coins/markets'')
              [(''vs_currency'', ''usd''), (''ids'', toLowerCase e tokenSymbol)] = Inr (token # rest) \<and>
            market_cap token = Some cap \<and>
            price details = JStr (''$'' @ (case current_price token of
                                             None \<Rightarrow> ''null''
                                           | Some p \<Rightarrow> numberToString e p)) \<and>
            marketCap details = JStr (''$'' @ toLocaleString e cap))"
  using assms
  by (auto simp: getTokenInfo_def getTokenInfo_try_def split: sum.splits list.splits option.splits)

theorem getTokenInfo_formats_strings_witness:
  "typeof (price sample_details) = ''string'' \<and> typeof (marketCap sample_details) = ''string'' \<and>
   price sample_details = JStr ''$150'' \<and> marketCap sample_details = JStr ''$70,123,456,789''"
  using getTokenInfo_formats_strings [of sample_env "''Solana''" sample_details]
  by (simp add: sample_getTokenInfo sample_details_def)

text \<open>
  C7 as stated fails: for the symbol \<open>Solana\<close> the fetch succeeds, and neither
  \<open>price\<close> nor \<open>marketCap\<close> of its result is a number.
\<close>

theorem getTokenInfo_not_numeric_counterexample:
  "snd (getTokenInfo sample_env ''Solana'') = Inr sample_details \<and>
   price sample_details = JStr ''$150'' \<and>
   marketCap sample_details = JStr ''$70,123,456,789'' \<and>
   typeof (price sample_details) \<noteq> ''number'' \<and>
   typeof (marketCap sample_details) \<noteq> ''number''"
  by (simp add: sample_getTokenInfo sample_details_def)

section \<open>The analysis\<close>

text \<open>
  C2. When any of the three fetches fails, \<open>analyzeToken\<close> fails with the one error
  \<open>Analysis failed. Check the token address and symbol.\<close>, in whatever order the
  fetches settle, and returns no report.
\<close>

theorem analyzeToken_fail_fast:
  assumes "isl (snd (getAccountInfo e address)) \<or> isl (snd (getTokenTransactions e address))
           \<or> isl (snd (getTokenInfo e tokenSymbol))"
  shows "snd (analyzeToken e settle address tokenSymbol) =
           Inl (Error ''Analysis failed. Check the token address and symbol.'') \<and>
         isl (snd (analyzeToken e settle address tokenSymbol))"
  using analyzeToken_rejected [OF assms, of settle] by simp

theorem analyzeToken_fail_fast_witness:
  "snd (analyzeToken sample_env sample_settle ''Gone'' ''Solana'') =
     Inl (Error ''Analysis failed. Check the token address and symbol.'') \<and>
   snd (analyzeToken sample_env sample_settle ''Down'' ''Solana'') =
     Inl (Error ''Analysis failed. Check the token address and symbol.'') \<and>
   snd (analyzeToken sample_env sample_settle ''Busy'' ''doesnotexist'') =
     Inl (Error ''Analysis failed. Check the token address and symbol.'')"
  using analyzeToken_fail_fast [of sample_env "''Gone''" "''Solana''" sample_settle]
    analyzeToken_fail_fast [of sample_env "''Down''" "''Solana''" sample_settle]
    analyzeToken_fail_fast [of sample_env "''Busy''" "''doesnotexist''" sample_settle]
  by (simp add: sample_getAccountInfo sample_getTokenTransactions sample_getTokenInfo)

text \<open>
  C4. When the three fetches succeed, \<open>analyzeToken\<close> returns a report, and the field
  \<open>transactions\<close> of the report is the first five records of the sequence that
  \<open>getTokenTransactions\<close> returned, which is in the node's order, most recent first;
  so it has at most five elements. Every report that \<open>analyzeToken\<close> returns is of
  this form. In the sample run the node returns ten signatures.
\<close>

theorem analyzeToken_truncates:
  "(snd (getAccountInfo e address) = Inr accountInfo \<and>
    snd (getTokenTransactions e address) = Inr txs \<and>
    snd (getTokenInfo e tokenSymbol) = Inr details \<longrightarrow>
      (\<exists>r. snd (analyzeToken e settle address tokenSymbol) = Inr r \<and>
           transactions r = take 5 txs \<and> length (transactions r) \<le> 5)) \<and>
   (snd (analyzeToken e settle address tokenSymbol) = Inr r' \<longrightarrow>
      length (transactions r') \<le> 5 \<and>
      (\<exists>txs'. snd (getTokenTransactions e address) = Inr txs' \<and>
              transactions r' = take 5 txs'))"
proof (intro conjI impI)
  assume "snd (getAccountInfo e address) = Inr accountInfo \<and>
    snd (getTokenTransactions e address) = Inr txs \<and>
    snd (getTokenInfo e tokenSymbol) = Inr details"
  then have "snd (analyzeToken e settle address tokenSymbol) =
         Inr \<lparr>honeypot = (if checkHoneypotLogic (Some accountInfo) txs
                           then warning_sign @ '' High Risk''
                           else check_mark @ '' No Honeypot Detected''),
              ownership = checkOwnership (Some accountInfo),
              tokenDetails = details,
              transactions = take 5 txs\<rparr>"
    by (simp add: analyzeToken_fulfilled)
  then show "\<exists>r. snd (analyzeToken e settle address tokenSymbol) = Inr r \<and>
           transactions r = take 5 txs \<and> length (transactions r) \<le> 5"
    by simp
next
  assume r': "snd (analyzeToken e settle address tokenSymbol) = Inr r'"
  then show "length (transactions r') \<le> 5"
    by (rule analyzeToken_Inr) simp
  from r' show "\<exists>txs'. snd (getTokenTransactions e address) = Inr txs' \<and>
              transactions r' = take 5 txs'"
    by (rule analyzeToken_Inr) simp
qed

theorem analyzeToken_truncates_witness:
  "snd (getTokenTransactions sample_env ''Busy'') = Inr sample_transactions \<and>
   length sample_transactions = 10 \<and>
   (\<exists>r. snd (analyzeToken sample_env sample_settle ''Busy'' ''Solana'') = Inr r \<and>
        transactions r = take 5 sample_transactions \<and> length (transactions r) = 5) \<and>
   snd (analyzeToken sample_env sample_settle ''Busy'' ''Solana'') = Inr busy_report \<and>
   map txId (transactions busy_report) = [''s1'', ''s2'', ''s3'', ''s4'', ''s5'']"
proof -
  note t = analyzeToken_truncates [where e = sample_env and address = "''Busy''"
      and tokenSymbol = "''Solana''" and settle = sample_settle and accountInfo = sample_account
      and txs = sample_transactions and details = sample_details and r' = busy_report]
  have "\<exists>r. snd (analyzeToken sample_env sample_settle ''Busy'' ''Solana'') = Inr r \<and>
        transactions r = take 5 sample_transactions \<and> length (transactions r) \<le> 5"
    using t [THEN conjunct1]
    by (simp add: sample_getAccountInfo sample_getTokenTransactions sample_getTokenInfo)
  then have "\<exists>r. snd (analyzeToken sample_env sample_settle ''Busy'' ''Solana'') = Inr r \<and>
        transactions r = take 5 sample_transactions \<and> length (transactions r) = 5"
    by (auto simp: sample_transactions_def)
  moreover have "map txId (transactions busy_report) = [''s1'', ''s2'', ''s3'', ''s4'', ''s5'']"
    by (simp add: busy_report_def sample_transactions_def)
  moreover have "length sample_transactions = 10"
    by (simp add: sample_transactions_def)
  ultimately show ?thesis
    by (simp add: sample_analyzeToken sample_getTokenTransactions)
qed

text \<open>
  C10. Every record that \<open>getTokenTransactions\<close> returns has the type \<open>confirmed\<close> or
  \<open>failed\<close> and so is not incoming-only, and \<open>checkHoneypotLogic\<close> with a present
  account object returns \<open>true\<close> for a fetched sequence exactly when it is empty. When
  the three fetches succeed, \<open>analyzeToken\<close> returns a report, which says \<open>High Risk\<close>
  exactly when the fetched sequence is empty and \<open>No Honeypot Detected\<close> exactly
  when it is not. Every report that \<open>analyzeToken\<close> returns is of this form.
\<close>

theorem analyzeToken_verdict_by_history:
  "(snd (getTokenTransactions e address) = Inr txs \<longrightarrow>
      (\<forall>tx \<in> set txs. (type tx = ''confirmed'' \<or> type tx = ''failed'') \<and> \<not> incoming_only tx) \<and>
      checkHoneypotLogic (Some accountInfo) txs = (txs = [])) \<and>
   (snd (getAccountInfo e address) = Inr accountInfo \<and>
    snd (getTokenTransactions e address) = Inr txs \<and>
    snd (getTokenInfo e tokenSymbol) = Inr details \<longrightarrow>
      (\<exists>r. snd (analyzeToken e settle address tokenSymbol) = Inr r \<and>
           (honeypot r = warning_sign @ '' High Risk'' \<longleftrightarrow> txs = []) \<and>
           (honeypot r = check_mark @ '' No Honeypot Detected'' \<longleftrightarrow> txs \<noteq> []))) \<and>
   (snd (analyzeToken e settle address tokenSymbol) = Inr r' \<longrightarrow>
      (\<exists>accountInfo' txs'.
         snd (getAccountInfo e address) = Inr accountInfo' \<and>
         snd (getTokenTransactions e address) = Inr txs' \<and>
         (\<forall>tx \<in> set txs'. (type tx = ''confirmed'' \<or> type tx = ''failed'') \<and> \<not> incoming_only tx) \<and>
         (txs' \<noteq> [] \<longrightarrow> checkHoneypotLogic (Some accountInfo') txs' = False) \<and>
         (honeypot r' = warning_sign @ '' High Risk'' \<longleftrightarrow> txs' = []) \<and>
         (honeypot r' = check_mark @ '' No Honeypot Detected'' \<longleftrightarrow> txs' \<noteq> [])))"
proof (intro conjI impI)
  assume t: "snd (getTokenTransactions e address) = Inr txs"
  then show "\<forall>tx \<in> set txs. (type tx = ''confirmed'' \<or> type tx = ''failed'') \<and> \<not> incoming_only tx"
    by (rule getTokenTransactions_types)
  from t show "checkHoneypotLogic (Some accountInfo) txs = (txs = [])"
    by (rule checkHoneypotLogic_fetched)
next
  assume f: "snd (getAccountInfo e address) = Inr accountInfo \<and>
    snd (getTokenTransactions e address) = Inr txs \<and>
    snd (getTokenInfo e tokenSymbol) = Inr details"
  then have "snd (getTokenTransactions e address) = Inr txs"
    by simp
  then have h: "checkHoneypotLogic (Some accountInfo) txs = (txs = [])"
    by (rule checkHoneypotLogic_fetched)
  from f have "snd (analyzeToken e settle address tokenSymbol) =
         Inr \<lparr>honeypot = (if checkHoneypotLogic (Some accountInfo) txs
                           then warning_sign @ '' High Risk''
                           else check_mark @ '' No Honeypot Detected''),
              ownership = checkOwnership (Some accountInfo),
              tokenDetails = details,
              transactions = take 5 txs\<rparr>"
    by (simp add: analyzeToken_fulfilled)
  with h labels_differ
  show "\<exists>r. snd (analyzeToken e settle address tokenSymbol) = Inr r \<and>
           (honeypot r = warning_sign @ '' High Risk'' \<longleftrightarrow> txs = []) \<and>
           (honeypot r = check_mark @ '' No Honeypot Detected'' \<longleftrightarrow> txs \<noteq> [])"
    by auto
next
  assume "snd (analyzeToken e settle address tokenSymbol) = Inr r'"
  then show "\<exists>accountInfo' txs'.
         snd (getAccountInfo e address) = Inr accountInfo' \<and>
         snd (getTokenTransactions e address) = Inr txs' \<and>
         (\<forall>tx \<in> set txs'. (type tx = ''confirmed'' \<or> type tx = ''failed'') \<and> \<not> incoming_only tx) \<and>
         (txs' \<noteq> [] \<longrightarrow> checkHoneypotLogic (Some accountInfo') txs' = False) \<and>
         (honeypot r' = warning_sign @ '' High Risk'' \<longleftrightarrow> txs' = []) \<and>
         (honeypot r' = check_mark @ '' No Honeypot Detected'' \<longleftrightarrow> txs' \<noteq> [])"
  proof (rule analyzeToken_Inr)
    fix accountInfo' txs' details'
    assume a: "snd (getAccountInfo e address) = Inr accountInfo'"
      and t: "snd (getTokenTransactions e address) = Inr txs'"
      and r: "r' = \<lparr>honeypot = (if checkHoneypotLogic (Some accountInfo') txs'
                         then warning_sign @ '' High Risk''
                         else check_mark @ '' No Honeypot Detected''),
            ownership = checkOwnership (Some accountInfo'),
            tokenDetails = details',
            transactions = take 5 txs'\<rparr>"
    have h: "checkHoneypotLogic (Some accountInfo') txs' = (txs' = [])"
      using t by (rule checkHoneypotLogic_fetched)
    have "honeypot r' = warning_sign @ '' High Risk'' \<longleftrightarrow> txs' = []"
      using labels_differ by (simp add: r h)
    moreover have "honeypot r' = check_mark @ '' No Honeypot Detected'' \<longleftrightarrow> txs' \<noteq> []"
      using labels_differ by (auto simp add: r h)
    ultimately show ?thesis
      using a t getTokenTransactions_types [OF t] h by blast
  qed
qed

theorem analyzeToken_verdict_by_history_witness:
  "snd (getTokenTransactions sample_env ''Busy'') = Inr sample_transactions \<and>
   sample_transactions \<noteq> [] \<and>
   checkHoneypotLogic (Some sample_account) sample_transactions = False \<and>
   (\<exists>r. snd (analyzeToken sample_env sample_settle ''Busy'' ''Solana'') = Inr r \<and>
        honeypot r = check_mark @ '' No Honeypot Detected'') \<and>
   snd (getTokenTransactions sample_env ''Idle'') = Inr [] \<and>
   (\<exists>r. snd (analyzeToken sample_env sample_settle ''Idle'' ''Solana'') = Inr r \<and>
        honeypot r = warning_sign @ '' High Risk'')"
proof -
  note busy = analyzeToken_verdict_by_history [where e = sample_env and address = "''Busy''"
      and tokenSymbol = "''Solana''" and settle = sample_settle and accountInfo = sample_account
      and txs = sample_transactions and details = sample_details and r' = busy_report]
  note idle = analyzeToken_verdict_by_history [where e = sample_env and address = "''Idle''"
      and tokenSymbol = "''Solana''" and settle = sample_settle and accountInfo = sample_account
      and txs = "[]" and details = sample_details and r' = idle_report]
  have ne: "sample_transactions \<noteq> []"
    by (simp add: sample_transactions_def)
  have "checkHoneypotLogic (Some sample_account) sample_transactions = False"
    using busy [THEN conjunct1] ne by (simp add: sample_getTokenTransactions)
  moreover have "\<exists>r. snd (analyzeToken sample_env sample_settle ''Busy'' ''Solana'') = Inr r \<and>
        honeypot r = check_mark @ '' No Honeypot Detected''"
    using busy [THEN conjunct2, THEN conjunct1] ne
    by (auto simp: sample_getAccountInfo sample_getTokenTransactions sample_getTokenInfo)
  moreover have "\<exists>r. snd (analyzeToken sample_env sample_settle ''Idle'' ''Solana'') = Inr r \<and>
        honeypot r = warning_sign @ '' High Risk''"
    using idle [THEN conjunct2, THEN conjunct1]
    by (auto simp: sample_getAccountInfo sample_getTokenTransactions sample_getTokenInfo)
  ultimately show ?thesis
    using ne by (simp add: sample_getTokenTransactions)
qed

section \<open>The rate limiter\<close>




end
